theory Spec2Isabelle
  imports Main "HOL-Library.Word"
begin

section \<open>The frame anchor (javaFrameAnchor\_x86.hpp)\<close>

text \<open>
  The x86 part of \<^verbatim>\<open>JavaFrameAnchor\<close> declares \<^verbatim>\<open>_last_Java_fp\<close> and the
  inline bodies of \<^verbatim>\<open>clear\<close>, \<^verbatim>\<open>copy\<close>, \<^verbatim>\<open>walkable\<close>, \<^verbatim>\<open>make_walkable\<close>
  and of the accessors. The bodies also use \<^verbatim>\<open>_last_Java_sp\<close> and
  \<^verbatim>\<open>_last_Java_pc\<close>, which the shared part of the class declares. All three are
  pointers: machine words of the platform's width \<open>'a\<close> (32 or 64 bits on x86), with
  \<^verbatim>\<open>NULL\<close> the word \<open>0\<close>.

  The record's selectors are the accessors \<^verbatim>\<open>last_Java_sp()\<close> and
  \<^verbatim>\<open>last_Java_fp()\<close> of the source, which return the field.
\<close>

record (overloaded) 'a JavaFrameAnchor =
  last_Java_sp :: "'a word"
  last_Java_fp :: "'a word"
  last_Java_pc :: "'a word"

definition set_last_Java_sp :: "'a::len word \<Rightarrow> 'a JavaFrameAnchor \<Rightarrow> 'a JavaFrameAnchor" where
  "set_last_Java_sp sp this = this\<lparr>last_Java_sp := sp\<rparr>"

definition set_last_Java_fp :: "'a::len word \<Rightarrow> 'a JavaFrameAnchor \<Rightarrow> 'a JavaFrameAnchor" where
  "set_last_Java_fp fp this = this\<lparr>last_Java_fp := fp\<rparr>"

text \<open>
  Every statement of \<^verbatim>\<open>clear\<close> and \<^verbatim>\<open>copy\<close> is one store of a word to one field.
  A body is the list of its stores in program order; running it applies them one after
  the other. The list keeps the order of the statements, which the result of the body
  alone would forget. The fields are \<^verbatim>\<open>volatile\<close> (as \<^verbatim>\<open>_last_Java_fp\<close> is declared
  here), and x86 makes a thread's stores visible in program order: the order of the
  list is the order in which another thread can see the stores.
\<close>

datatype field = Last_Java_sp | Last_Java_fp | Last_Java_pc

datatype 'v store = Store field 'v

fun exec_store :: "'a::len word store \<Rightarrow> 'a JavaFrameAnchor \<Rightarrow> 'a JavaFrameAnchor" where
  "exec_store (Store Last_Java_sp v) this = this\<lparr>last_Java_sp := v\<rparr>"
| "exec_store (Store Last_Java_fp v) this = this\<lparr>last_Java_fp := v\<rparr>"
| "exec_store (Store Last_Java_pc v) this = this\<lparr>last_Java_pc := v\<rparr>"

fun run :: "'a::len word store list \<Rightarrow> 'a JavaFrameAnchor \<Rightarrow> 'a JavaFrameAnchor" where
  "run [] this = this"
| "run (w # ws) this = run ws (exec_store w this)"

text \<open>The anchor before the first store and after each store, in order.\<close>

fun states :: "'a::len word store list \<Rightarrow> 'a JavaFrameAnchor \<Rightarrow> 'a JavaFrameAnchor list" where
  "states [] this = [this]"
| "states (w # ws) this = this # states ws (exec_store w this)"

text \<open>
  \<^verbatim>\<open>void clear(void) { _last_Java_sp = NULL; _last_Java_fp = NULL; _last_Java_pc = NULL; }\<close>
\<close>

definition clear_stores :: "'a::len word store list" where
  "clear_stores = [Store Last_Java_sp 0, Store Last_Java_fp 0, Store Last_Java_pc 0]"

definition clear :: "'a::len JavaFrameAnchor \<Rightarrow> 'a JavaFrameAnchor" where
  "clear this = run clear_stores this"

text \<open>
  \<^verbatim>\<open>void copy(JavaFrameAnchor* src)\<close>: the store of \<^verbatim>\<open>NULL\<close> to
  \<^verbatim>\<open>_last_Java_sp\<close> is guarded by the comparison of the two stack pointers; the three
  copies follow, the stack pointer last. The source anchor is read, never written.
\<close>

definition copy_stores :: "'a::len JavaFrameAnchor \<Rightarrow> 'a JavaFrameAnchor \<Rightarrow> 'a word store list" where
  "copy_stores this src =
     (if last_Java_sp this \<noteq> last_Java_sp src then [Store Last_Java_sp 0] else []) @
     [Store Last_Java_fp (last_Java_fp src),
      Store Last_Java_pc (last_Java_pc src),
      Store Last_Java_sp (last_Java_sp src)]"

definition copy :: "'a::len JavaFrameAnchor \<Rightarrow> 'a JavaFrameAnchor \<Rightarrow> 'a JavaFrameAnchor" where
  "copy this src = run (copy_stores this src) this"

text \<open>
  \<^verbatim>\<open>bool walkable(void) { return true; }\<close> and
  \<^verbatim>\<open>void make_walkable(JavaThread* thread) { }\<close>: the empty body leaves the thread
  and the anchor as they are.
\<close>

definition walkable :: "'a::len JavaFrameAnchor \<Rightarrow> bool" where
  "walkable this = True"

definition make_walkable :: "'t \<Rightarrow> 'a::len JavaFrameAnchor \<Rightarrow> 't \<times> 'a JavaFrameAnchor" where
  "make_walkable thread this = (thread, this)"

subsection \<open>A writer and a reader\<close>

text \<open>
  The anchor is written by its own thread and read by others. An interleaving of one
  writer, which runs the stores of a body in program order, and one reader is a
  schedule: at each point either the writer performs its next store, or the reader
  takes a sample of the three fields, all at once. A writer's step after its last store
  does nothing.
\<close>

datatype action = Writer_step | Reader_sample

fun samples :: "action list \<Rightarrow> 'a::len word store list \<Rightarrow> 'a JavaFrameAnchor \<Rightarrow> 'a JavaFrameAnchor list" where
  "samples [] ws this = []"
| "samples (Reader_sample # sch) ws this = this # samples sch ws this"
| "samples (Writer_step # sch) [] this = samples sch [] this"
| "samples (Writer_step # sch) (w # ws) this = samples sch ws (exec_store w this)"

text \<open>
  The accessors of the source return one field each (\<^verbatim>\<open>last_Java_sp()\<close>,
  \<^verbatim>\<open>last_Java_fp()\<close>), so a reader that uses them loads the fields one by one, and
  the writer may store between two loads. In a schedule of this reader each step is
  the writer's next store or the reader's load of one field, in any order of the fields.
  The reader keeps the value it loaded last for each field; when it holds a value for
  all three, they are a sample, and it starts afresh.
\<close>

datatype step = Store_step | Load_step field

fun load :: "field \<Rightarrow> 'a::len JavaFrameAnchor \<Rightarrow> 'a word" where
  "load Last_Java_sp this = last_Java_sp this"
| "load Last_Java_fp this = last_Java_fp this"
| "load Last_Java_pc this = last_Java_pc this"

definition sample_of :: "(field \<rightharpoonup> 'a::len word) \<Rightarrow> 'a JavaFrameAnchor option" where
  "sample_of r =
     (case (r Last_Java_sp, r Last_Java_fp, r Last_Java_pc) of
        (Some sp, Some fp, Some pc) \<Rightarrow>
          Some \<lparr>last_Java_sp = sp, last_Java_fp = fp, last_Java_pc = pc\<rparr>
      | _ \<Rightarrow> None)"

fun reads :: "step list \<Rightarrow> (field \<rightharpoonup> 'a::len word) \<Rightarrow> 'a word store list \<Rightarrow> 'a JavaFrameAnchor \<Rightarrow> 'a JavaFrameAnchor list" where
  "reads [] r ws this = []"
| "reads (Store_step # sch) r [] this = reads sch r [] this"
| "reads (Store_step # sch) r (w # ws) this = reads sch r ws (exec_store w this)"
| "reads (Load_step f # sch) r ws this =
     (case sample_of (r(f \<mapsto> load f this)) of
        Some s \<Rightarrow> s # reads sch Map.empty ws this
      | None \<Rightarrow> reads sch (r(f \<mapsto> load f this)) ws this)"

text \<open>
  The reader that samples at once is the reader that loads the three fields with no
  store of the writer between the loads of a sample.
\<close>

fun uninterrupted :: "action list \<Rightarrow> step list" where
  "uninterrupted [] = []"
| "uninterrupted (Writer_step # sch) = Store_step # uninterrupted sch"
| "uninterrupted (Reader_sample # sch) =
     Load_step Last_Java_sp # Load_step Last_Java_fp # Load_step Last_Java_pc # uninterrupted sch"

text \<open>The position of the first store to a field in a body.\<close>

fun store_index :: "field \<Rightarrow> 'v store list \<Rightarrow> nat option" where
  "store_index f [] = None"
| "store_index f (Store g v # ws) =
     (if g = f then Some 0 else map_option Suc (store_index f ws))"

section \<open>The class object (klassOop.hpp)\<close>

text \<open>
  \<^verbatim>\<open>klassOopDesc\<close> adds no field to \<^verbatim>\<open>oopDesc\<close>, which is declared outside these
  files, as is \<^verbatim>\<open>HeapWordSize\<close>. The two compile-time constants the bodies use are
  parameters of the model: \<open>sz\<close> is \<^verbatim>\<open>sizeof(klassOopDesc)\<close>, of type
  \<^verbatim>\<open>size_t\<close> (an unsigned word of the platform's width \<open>'a\<close>), and \<open>hws\<close> is
  \<^verbatim>\<open>HeapWordSize\<close>, an \<^verbatim>\<open>int\<close> (32 bits on x86).

  \<^verbatim>\<open>static int header_size() { return sizeof(klassOopDesc)/HeapWordSize; }\<close>
  divides a \<^verbatim>\<open>size_t\<close> by an \<^verbatim>\<open>int\<close>: the \<^verbatim>\<open>int\<close> is converted to
  \<^verbatim>\<open>size_t\<close> (\<open>scast\<close>), the division is unsigned, and the quotient is cut to
  \<^verbatim>\<open>int\<close> on return (\<open>ucast\<close>). C++ leaves division by zero undefined, where
  the word division gives 0: what is proved of \<open>header_size\<close> below takes
  \<^verbatim>\<open>HeapWordSize\<close> positive.

  \<^verbatim>\<open>static int klass_part_offset_in_bytes() { return sizeof(klassOopDesc); }\<close>
\<close>

type_synonym c_int = "32 word"

definition header_size :: "'a::len word \<Rightarrow> c_int \<Rightarrow> c_int" where
  "header_size sz hws = ucast (sz div scast hws)"

definition klass_part_offset_in_bytes :: "'a::len word \<Rightarrow> c_int" where
  "klass_part_offset_in_bytes sz = ucast sz"

text \<open>
  \<^verbatim>\<open>Klass* klass_part() { return (Klass*)((address)this + klass_part_offset_in_bytes()); }\<close>
  adds the \<^verbatim>\<open>int\<close> to the byte address of the receiver; the sum is the result. No
  memory is read.
\<close>

definition klass_part :: "'a::len word \<Rightarrow> 'a word \<Rightarrow> 'a word" where
  "klass_part sz this = this + scast (klass_part_offset_in_bytes sz)"

text \<open>
  The accessor as the specification words it, for comparison: the class object holds a
  pointer field at the fixed offset, and \<^verbatim>\<open>descriptor()\<close> loads the pointer stored
  there. Memory maps the address of a pointer-sized cell to the word it holds.
\<close>

definition descriptor_spec :: "('a::len word \<rightharpoonup> 'a word) \<Rightarrow> 'a word \<Rightarrow> 'a word \<Rightarrow> 'a word option" where
  "descriptor_spec mem sz object_base = mem (object_base + scast (klass_part_offset_in_bytes sz))"

section \<open>The write to the serialization page (interfaceSupport\_windows.hpp)\<close>

text \<open>
  \<^verbatim>\<open>serialize_memory\<close> runs \<^verbatim>\<open>os::write_memory_serialize_page(thread)\<close> inside
  \<^verbatim>\<open>__try\<close>, with the filter expression
  \<^verbatim>\<open>os::win32::serialize_fault_filter(...)\<close> and an empty handler block.
  A filter expression of structured exception handling has one of three values: the
  handler block runs and execution goes on after it, or the search for a handler goes on
  in the enclosing frames, or execution resumes at the instruction that raised the
  exception.
\<close>

datatype filter_result =
  EXCEPTION_EXECUTE_HANDLER | EXCEPTION_CONTINUE_SEARCH | EXCEPTION_CONTINUE_EXECUTION

text \<open>
  How a call ends: the store was done; or an exception of the store was handled by the
  empty block; or it left the function for the enclosing handlers, as it was raised.
\<close>

datatype 'e outcome = Stored | Swallowed 'e | Propagated 'e

text \<open>
  Neither the store nor the filter is in these files. The filter is a parameter. The
  store is given by what each execution of its instruction does, in order: \<open>None\<close>
  when it completes, \<open>Some e\<close> when it raises \<open>e\<close>. When the filter answers
  \<^verbatim>\<open>EXCEPTION_CONTINUE_EXECUTION\<close> the instruction runs again, which is the next entry
  of the list; a list that ends before the call does gives \<open>None\<close>.
\<close>

fun serialize_memory :: "('e \<Rightarrow> filter_result) \<Rightarrow> 'e option list \<Rightarrow> 'e outcome option" where
  "serialize_memory filter_expr [] = None"
| "serialize_memory filter_expr (None # attempts) = Some Stored"
| "serialize_memory filter_expr (Some e # attempts) =
     (case filter_expr e of
        EXCEPTION_EXECUTE_HANDLER \<Rightarrow> Some (Swallowed e)
      | EXCEPTION_CONTINUE_SEARCH \<Rightarrow> Some (Propagated e)
      | EXCEPTION_CONTINUE_EXECUTION \<Rightarrow> serialize_memory filter_expr attempts)"

text \<open>An exception record: the exception's code and the address of the access.\<close>

record (overloaded) 'a exception_record =
  ExceptionCode :: "32 word"
  fault_address :: "'a word"

text \<open>
  Modelled from the spec: \<^verbatim>\<open>os::win32::serialize_fault_filter\<close>, whose body is not
  in these files. The specification has the handler recognise the faulting address as
  the safepoint page and swallow the fault, and re-raise any fault that is not at the
  exact address of the safepoint page.
\<close>

definition serialize_fault_filter :: "'a::len word \<Rightarrow> 'a exception_record \<Rightarrow> filter_result" where
  "serialize_fault_filter page e =
     (if fault_address e = page then EXCEPTION_EXECUTE_HANDLER else EXCEPTION_CONTINUE_SEARCH)"

section \<open>The states an anchor goes through\<close>

lemma clear_result:
  "clear this = \<lparr>last_Java_sp = 0, last_Java_fp = 0, last_Java_pc = 0\<rparr>"
  by (simp add: clear_def clear_stores_def)

lemma copy_result: "copy this src = src"
  by (simp add: copy_def copy_stores_def)

lemma states_first: "this \<in> set (states ws this)"
  by (cases ws) simp_all

lemma states_clear:
  "states clear_stores this =
     [this, this\<lparr>last_Java_sp := 0\<rparr>, this\<lparr>last_Java_sp := 0, last_Java_fp := 0\<rparr>,
      this\<lparr>last_Java_sp := 0, last_Java_fp := 0, last_Java_pc := 0\<rparr>]"
  by (simp add: clear_stores_def)

lemma states_copy_changed:
  assumes "last_Java_sp this \<noteq> last_Java_sp src"
  shows "states (copy_stores this src) this =
     [this, this\<lparr>last_Java_sp := 0\<rparr>,
      this\<lparr>last_Java_sp := 0, last_Java_fp := last_Java_fp src\<rparr>,
      this\<lparr>last_Java_sp := 0, last_Java_fp := last_Java_fp src,
           last_Java_pc := last_Java_pc src\<rparr>,
      src]"
  using assms by (simp add: copy_stores_def)

text \<open>
  With equal stack pointers the store of the program counter already completes the
  source's state; the last store writes the stack pointer the anchor holds.
\<close>

lemma states_copy_same:
  assumes "last_Java_sp this = last_Java_sp src"
  shows "states (copy_stores this src) this =
     [this, this\<lparr>last_Java_fp := last_Java_fp src\<rparr>, src, src]"
  using assms by (cases this, cases src) (simp add: copy_stores_def)

text \<open>
  \<^verbatim>\<open>copy\<close> called with the anchor itself as source: the comparison finds the stack
  pointers equal and every store writes the value its field holds, as it does in the
  source, where the two pointers are then the same object.
\<close>

lemma states_copy_self: "states (copy_stores this this) this = [this, this, this, this]"
  by (simp add: states_copy_same)

text \<open>A reader samples only states the writer goes through.\<close>

lemma samples_subset: "set (samples sch ws this) \<subseteq> set (states ws this)"
  by (induction sch ws this rule: samples.induct) (auto simp: states_first)

lemma samples_done: "set (samples sch [] this) \<subseteq> {this}"
  by (induction sch "[] :: 'a word store list" this rule: samples.induct) auto

subsection \<open>What a reader can load\<close>

text \<open>
  Without a store between the loads of a sample the two readers are the same. In
  general every field of a sample is the field of some state the writer goes through,
  though not of the same state for the three fields.
\<close>

lemma reads_uninterrupted: "reads (uninterrupted sch) Map.empty ws this = samples sch ws this"
  by (induction sch ws this rule: samples.induct) (simp_all add: sample_of_def)

lemma sample_of_Some: "sample_of r = Some s \<Longrightarrow> r f = Some (load f s)"
  by (cases f) (auto simp: sample_of_def split: option.splits)

lemma reads_fields:
  "s \<in> set (reads sch r ws this) \<Longrightarrow>
     r f = Some (load f s) \<or> load f s \<in> load f ` set (states ws this)"
proof (induction sch r ws this rule: reads.induct)
  case (1 r ws this)
  then show ?case by simp
next
  case (2 sch r this)
  then show ?case by simp
next
  case (3 sch r w ws this)
  then show ?case by auto
next
  case (4 g sch r ws this)
  let ?r = "r(g \<mapsto> load g this)"
  have here: "load g this \<in> load g ` set (states ws this)"
    using states_first by blast
  show ?case
  proof (cases "sample_of ?r")
    case None
    with "4.prems" have "s \<in> set (reads sch ?r ws this)"
      by simp
    then have "?r f = Some (load f s) \<or> load f s \<in> load f ` set (states ws this)"
      by (rule "4.IH"(1) [OF None])
    then show ?thesis
      using here by (cases "f = g") auto
  next
    case (Some s0)
    with "4.prems" have "s = s0 \<or> s \<in> set (reads sch Map.empty ws this)"
      by auto
    then show ?thesis
    proof
      assume "s = s0"
      then have "?r f = Some (load f s)"
        using Some sample_of_Some by blast
      then show ?thesis
        using here by (cases "f = g") auto
    next
      assume "s \<in> set (reads sch Map.empty ws this)"
      then have "Map.empty f = Some (load f s) \<or> load f s \<in> load f ` set (states ws this)"
        by (rule "4.IH"(2) [OF Some])
      then show ?thesis by simp
    qed
  qed
qed

lemma reads_from_states:
  "s \<in> set (reads sch Map.empty ws this) \<Longrightarrow> load f s \<in> load f ` set (states ws this)"
  using reads_fields [of s sch Map.empty ws this f] by simp

lemma loads_clear:
  assumes "s \<in> set (reads sch Map.empty clear_stores this)"
  shows "(last_Java_sp s = last_Java_sp this \<or> last_Java_sp s = 0)
       \<and> (last_Java_fp s = last_Java_fp this \<or> last_Java_fp s = 0)
       \<and> (last_Java_pc s = last_Java_pc this \<or> last_Java_pc s = 0)"
  using reads_from_states [OF assms, of Last_Java_sp]
    reads_from_states [OF assms, of Last_Java_fp]
    reads_from_states [OF assms, of Last_Java_pc]
  by (auto simp: states_clear)

lemma loads_copy:
  assumes "s \<in> set (reads sch Map.empty (copy_stores this src) this)"
  shows "(last_Java_sp s = last_Java_sp this \<or> last_Java_sp s = 0 \<or> last_Java_sp s = last_Java_sp src)
       \<and> (last_Java_fp s = last_Java_fp this \<or> last_Java_fp s = last_Java_fp src)
       \<and> (last_Java_pc s = last_Java_pc this \<or> last_Java_pc s = last_Java_pc src)"
proof (cases "last_Java_sp this = last_Java_sp src")
  case True
  show ?thesis
    using reads_from_states [OF assms, of Last_Java_sp]
      reads_from_states [OF assms, of Last_Java_fp]
      reads_from_states [OF assms, of Last_Java_pc]
    by (auto simp: states_copy_same [OF True])
next
  case False
  show ?thesis
    using reads_from_states [OF assms, of Last_Java_sp]
      reads_from_states [OF assms, of Last_Java_fp]
      reads_from_states [OF assms, of Last_Java_pc]
    by (auto simp: states_copy_changed [OF False])
qed

lemma loads_copy_same:
  assumes "s \<in> set (reads sch Map.empty (copy_stores this src) this)"
    and "last_Java_sp this = last_Java_sp src"
  shows "last_Java_sp s = last_Java_sp this"
  using reads_from_states [OF assms(1), of Last_Java_sp] assms(2)
  by (auto simp: states_copy_same [OF assms(2)])

section \<open>Properties of the frame anchor\<close>

text \<open>
  C1. When the incoming \<^verbatim>\<open>_last_Java_sp\<close> differs from the destination's, \<^verbatim>\<open>copy\<close>
  first stores \<^verbatim>\<open>NULL\<close> to the destination's stack pointer, then copies the frame
  pointer and the program counter, and copies the stack pointer last. So every state the
  anchor goes through that has a stack pointer present is the old state or the new state,
  the old stack pointer, when present, is never paired with another frame pointer or
  program counter than the old ones, and after the copy the three fields are the
  source's.
\<close>

theorem copy_changed_sp:
  assumes "last_Java_sp this \<noteq> last_Java_sp src"
  shows "copy_stores this src =
           [Store Last_Java_sp 0, Store Last_Java_fp (last_Java_fp src),
            Store Last_Java_pc (last_Java_pc src), Store Last_Java_sp (last_Java_sp src)]
         \<and> (\<forall>s \<in> set (states (copy_stores this src) this).
               last_Java_sp s \<noteq> 0 \<longrightarrow> s = this \<or> s = copy this src)
         \<and> (\<forall>s \<in> set (states (copy_stores this src) this).
               last_Java_sp s = last_Java_sp this \<and> last_Java_sp this \<noteq> 0 \<longrightarrow>
               last_Java_fp s = last_Java_fp this \<and> last_Java_pc s = last_Java_pc this)
         \<and> last_Java_sp (copy this src) = last_Java_sp src
         \<and> last_Java_fp (copy this src) = last_Java_fp src
         \<and> last_Java_pc (copy this src) = last_Java_pc src"
proof (intro conjI)
  show "copy_stores this src =
           [Store Last_Java_sp 0, Store Last_Java_fp (last_Java_fp src),
            Store Last_Java_pc (last_Java_pc src), Store Last_Java_sp (last_Java_sp src)]"
    using assms by (simp add: copy_stores_def)
  show "\<forall>s \<in> set (states (copy_stores this src) this).
               last_Java_sp s \<noteq> 0 \<longrightarrow> s = this \<or> s = copy this src"
    using assms by (simp add: states_copy_changed copy_result)
  show "\<forall>s \<in> set (states (copy_stores this src) this).
               last_Java_sp s = last_Java_sp this \<and> last_Java_sp this \<noteq> 0 \<longrightarrow>
               last_Java_fp s = last_Java_fp this \<and> last_Java_pc s = last_Java_pc this"
    using assms by (auto simp add: states_copy_changed)
qed (simp_all add: copy_result)

theorem copy_changed_sp_witness:
  "last_Java_sp \<lparr>last_Java_sp = 0x1000, last_Java_fp = 0xFF0, last_Java_pc = (0x2000 :: 32 word)\<rparr> \<noteq> last_Java_sp \<lparr>last_Java_sp = 0x3000, last_Java_fp = 0x2FF0, last_Java_pc = (0x4000 :: 32 word)\<rparr>
   \<and> copy_stores \<lparr>last_Java_sp = 0x1000, last_Java_fp = 0xFF0, last_Java_pc = (0x2000 :: 32 word)\<rparr> \<lparr>last_Java_sp = 0x3000, last_Java_fp = 0x2FF0, last_Java_pc = (0x4000 :: 32 word)\<rparr>
       = [Store Last_Java_sp 0, Store Last_Java_fp 0x2FF0, Store Last_Java_pc 0x4000,
          Store Last_Java_sp 0x3000]
   \<and> \<lparr>last_Java_sp = 0x3000, last_Java_fp = 0x2FF0, last_Java_pc = (0x4000 :: 32 word)\<rparr> \<in> set (states (copy_stores \<lparr>last_Java_sp = 0x1000, last_Java_fp = 0xFF0, last_Java_pc = (0x2000 :: 32 word)\<rparr> \<lparr>last_Java_sp = 0x3000, last_Java_fp = 0x2FF0, last_Java_pc = (0x4000 :: 32 word)\<rparr>) \<lparr>last_Java_sp = 0x1000, last_Java_fp = 0xFF0, last_Java_pc = (0x2000 :: 32 word)\<rparr>)
   \<and> copy \<lparr>last_Java_sp = 0x1000, last_Java_fp = 0xFF0, last_Java_pc = (0x2000 :: 32 word)\<rparr> \<lparr>last_Java_sp = 0x3000, last_Java_fp = 0x2FF0, last_Java_pc = (0x4000 :: 32 word)\<rparr> = \<lparr>last_Java_sp = 0x3000, last_Java_fp = 0x2FF0, last_Java_pc = (0x4000 :: 32 word)\<rparr>"
  using copy_changed_sp [of "\<lparr>last_Java_sp = 0x1000, last_Java_fp = 0xFF0, last_Java_pc = (0x2000 :: 32 word)\<rparr>" "\<lparr>last_Java_sp = 0x3000, last_Java_fp = 0x2FF0, last_Java_pc = (0x4000 :: 32 word)\<rparr>"]
  by (simp add: copy_stores_def copy_def)

text \<open>
  C2. For every interleaving of one writer running \<^verbatim>\<open>clear\<close> or \<^verbatim>\<open>copy\<close> and one
  reader sampling the three fields of the anchor, whatever the order of its loads and
  wherever the writer stores between them: each field of a sample is that field's value
  before the update or its value after, or, for the stack pointer, \<^verbatim>\<open>NULL\<close>; and
  with an unchanged stack pointer every sample has that stack pointer. The fields of a
  sample may be of different states. When no store falls between the loads of a sample,
  a sample taken during \<^verbatim>\<open>clear\<close>, or during a \<^verbatim>\<open>copy\<close> whose incoming stack
  pointer differs, is the state before, the state after, or has the stack pointer absent;
  one taken during a \<^verbatim>\<open>copy\<close> with an unchanged stack pointer is the state before,
  the state after, or the new frame pointer with the old program counter.
\<close>

theorem samples_consistent:
  "(\<forall>s \<in> set (reads lds Map.empty clear_stores this).
       (last_Java_sp s = last_Java_sp this \<or> last_Java_sp s = 0)
     \<and> (last_Java_fp s = last_Java_fp this \<or> last_Java_fp s = 0)
     \<and> (last_Java_pc s = last_Java_pc this \<or> last_Java_pc s = 0))
   \<and> (\<forall>s \<in> set (reads lds Map.empty (copy_stores this src) this).
       (last_Java_sp s = last_Java_sp this \<or> last_Java_sp s = 0
          \<or> last_Java_sp s = last_Java_sp src)
     \<and> (last_Java_fp s = last_Java_fp this \<or> last_Java_fp s = last_Java_fp src)
     \<and> (last_Java_pc s = last_Java_pc this \<or> last_Java_pc s = last_Java_pc src))
   \<and> (last_Java_sp this = last_Java_sp src \<longrightarrow>
        (\<forall>s \<in> set (reads lds Map.empty (copy_stores this src) this).
            last_Java_sp s = last_Java_sp this))
   \<and> samples sch clear_stores this = reads (uninterrupted sch) Map.empty clear_stores this
   \<and> samples sch (copy_stores this src) this
        = reads (uninterrupted sch) Map.empty (copy_stores this src) this
   \<and> (\<forall>s \<in> set (samples sch clear_stores this).
       s = this \<or> s = clear this \<or> last_Java_sp s = 0)
   \<and> (last_Java_sp this \<noteq> last_Java_sp src \<longrightarrow>
        (\<forall>s \<in> set (samples sch (copy_stores this src) this).
            s = this \<or> s = copy this src \<or> last_Java_sp s = 0))
   \<and> (last_Java_sp this = last_Java_sp src \<longrightarrow>
        (\<forall>s \<in> set (samples sch (copy_stores this src) this).
            last_Java_sp s = last_Java_sp this \<and>
            (s = this \<or> s = copy this src \<or>
             (last_Java_fp s = last_Java_fp src \<and> last_Java_pc s = last_Java_pc this))))"
proof (intro conjI impI ballI)
  fix s
  assume "s \<in> set (reads lds Map.empty clear_stores this)"
  then have c: "(last_Java_sp s = last_Java_sp this \<or> last_Java_sp s = 0)
       \<and> (last_Java_fp s = last_Java_fp this \<or> last_Java_fp s = 0)
       \<and> (last_Java_pc s = last_Java_pc this \<or> last_Java_pc s = 0)"
    by (rule loads_clear)
  from c show "last_Java_sp s = last_Java_sp this \<or> last_Java_sp s = 0" by simp
  from c show "last_Java_fp s = last_Java_fp this \<or> last_Java_fp s = 0" by simp
  from c show "last_Java_pc s = last_Java_pc this \<or> last_Java_pc s = 0" by simp
next
  fix s
  assume "s \<in> set (reads lds Map.empty (copy_stores this src) this)"
  then have c: "(last_Java_sp s = last_Java_sp this \<or> last_Java_sp s = 0 \<or> last_Java_sp s = last_Java_sp src)
       \<and> (last_Java_fp s = last_Java_fp this \<or> last_Java_fp s = last_Java_fp src)
       \<and> (last_Java_pc s = last_Java_pc this \<or> last_Java_pc s = last_Java_pc src)"
    by (rule loads_copy)
  from c show "last_Java_sp s = last_Java_sp this \<or> last_Java_sp s = 0
          \<or> last_Java_sp s = last_Java_sp src" by simp
  from c show "last_Java_fp s = last_Java_fp this \<or> last_Java_fp s = last_Java_fp src" by simp
  from c show "last_Java_pc s = last_Java_pc this \<or> last_Java_pc s = last_Java_pc src" by simp
next
  fix s
  assume "last_Java_sp this = last_Java_sp src"
    and "s \<in> set (reads lds Map.empty (copy_stores this src) this)"
  then show "last_Java_sp s = last_Java_sp this"
    by (simp add: loads_copy_same)
next
  show "samples sch clear_stores this = reads (uninterrupted sch) Map.empty clear_stores this"
    by (simp add: reads_uninterrupted)
  show "samples sch (copy_stores this src) this
        = reads (uninterrupted sch) Map.empty (copy_stores this src) this"
    by (simp add: reads_uninterrupted)
next
  fix s
  assume "s \<in> set (samples sch clear_stores this)"
  then have "s \<in> set (states clear_stores this)"
    using samples_subset by blast
  then show "s = this \<or> s = clear this \<or> last_Java_sp s = 0"
    by (auto simp: states_clear)
next
  fix s
  assume ne: "last_Java_sp this \<noteq> last_Java_sp src"
    and "s \<in> set (samples sch (copy_stores this src) this)"
  then have "s \<in> set (states (copy_stores this src) this)"
    using samples_subset by blast
  then show "s = this \<or> s = copy this src \<or> last_Java_sp s = 0"
    by (auto simp: states_copy_changed [OF ne] copy_result)
next
  fix s
  assume eq: "last_Java_sp this = last_Java_sp src"
    and "s \<in> set (samples sch (copy_stores this src) this)"
  then have mem: "s \<in> set (states (copy_stores this src) this)"
    using samples_subset by blast
  then show "last_Java_sp s = last_Java_sp this"
    by (auto simp: states_copy_same [OF eq] eq)
  from mem show "s = this \<or> s = copy this src \<or>
           (last_Java_fp s = last_Java_fp src \<and> last_Java_pc s = last_Java_pc this)"
    by (auto simp: states_copy_same [OF eq] copy_result)
qed

text \<open>
  A reader that samples at once after the first store of \<^verbatim>\<open>clear\<close> finds the stack
  pointer absent beside the old frame pointer and program counter; after the first store
  of a \<^verbatim>\<open>copy\<close> with an unchanged stack pointer it finds the new frame pointer beside
  the old program counter. A reader that loads the stack pointer before a \<^verbatim>\<open>copy\<close>
  with another stack pointer, and the other two fields after it, has the old stack
  pointer, present, with the new frame pointer and program counter; with an unchanged
  stack pointer, a reader whose loads of frame pointer and program counter fall on the two
  sides of the writer's stores has the old frame pointer with the new program counter.
  None of the four samples is the state before or the state after.
\<close>

theorem sample_between_stores:
  "samples [Writer_step, Reader_sample] clear_stores \<lparr>last_Java_sp = 0x1000, last_Java_fp = 0xFF0, last_Java_pc = (0x2000 :: 32 word)\<rparr> = [\<lparr>last_Java_sp = 0, last_Java_fp = 0xFF0, last_Java_pc = (0x2000 :: 32 word)\<rparr>]
   \<and> \<lparr>last_Java_sp = 0, last_Java_fp = 0xFF0, last_Java_pc = (0x2000 :: 32 word)\<rparr> \<noteq> \<lparr>last_Java_sp = 0x1000, last_Java_fp = 0xFF0, last_Java_pc = (0x2000 :: 32 word)\<rparr>
   \<and> \<lparr>last_Java_sp = 0, last_Java_fp = 0xFF0, last_Java_pc = (0x2000 :: 32 word)\<rparr> \<noteq> clear \<lparr>last_Java_sp = 0x1000, last_Java_fp = 0xFF0, last_Java_pc = (0x2000 :: 32 word)\<rparr>
   \<and> samples [Writer_step, Reader_sample] (copy_stores \<lparr>last_Java_sp = 0x1000, last_Java_fp = 0xFF0, last_Java_pc = (0x2000 :: 32 word)\<rparr> \<lparr>last_Java_sp = 0x1000, last_Java_fp = 0x2FF0, last_Java_pc = (0x4000 :: 32 word)\<rparr>) \<lparr>last_Java_sp = 0x1000, last_Java_fp = 0xFF0, last_Java_pc = (0x2000 :: 32 word)\<rparr> = [\<lparr>last_Java_sp = 0x1000, last_Java_fp = 0x2FF0, last_Java_pc = (0x2000 :: 32 word)\<rparr>]
   \<and> \<lparr>last_Java_sp = 0x1000, last_Java_fp = 0x2FF0, last_Java_pc = (0x2000 :: 32 word)\<rparr> \<noteq> \<lparr>last_Java_sp = 0x1000, last_Java_fp = 0xFF0, last_Java_pc = (0x2000 :: 32 word)\<rparr>
   \<and> \<lparr>last_Java_sp = 0x1000, last_Java_fp = 0x2FF0, last_Java_pc = (0x2000 :: 32 word)\<rparr> \<noteq> copy \<lparr>last_Java_sp = 0x1000, last_Java_fp = 0xFF0, last_Java_pc = (0x2000 :: 32 word)\<rparr> \<lparr>last_Java_sp = 0x1000, last_Java_fp = 0x2FF0, last_Java_pc = (0x4000 :: 32 word)\<rparr>
   \<and> reads [Load_step Last_Java_sp, Store_step, Store_step, Store_step, Store_step,
             Load_step Last_Java_fp, Load_step Last_Java_pc]
        Map.empty (copy_stores \<lparr>last_Java_sp = 0x1000, last_Java_fp = 0xFF0, last_Java_pc = (0x2000 :: 32 word)\<rparr> \<lparr>last_Java_sp = 0x3000, last_Java_fp = 0x2FF0, last_Java_pc = (0x4000 :: 32 word)\<rparr>) \<lparr>last_Java_sp = 0x1000, last_Java_fp = 0xFF0, last_Java_pc = (0x2000 :: 32 word)\<rparr> = [\<lparr>last_Java_sp = 0x1000, last_Java_fp = 0x2FF0, last_Java_pc = (0x4000 :: 32 word)\<rparr>]
   \<and> \<lparr>last_Java_sp = 0x1000, last_Java_fp = 0x2FF0, last_Java_pc = (0x4000 :: 32 word)\<rparr> \<noteq> \<lparr>last_Java_sp = 0x1000, last_Java_fp = 0xFF0, last_Java_pc = (0x2000 :: 32 word)\<rparr>
   \<and> \<lparr>last_Java_sp = 0x1000, last_Java_fp = 0x2FF0, last_Java_pc = (0x4000 :: 32 word)\<rparr> \<noteq> copy \<lparr>last_Java_sp = 0x1000, last_Java_fp = 0xFF0, last_Java_pc = (0x2000 :: 32 word)\<rparr> \<lparr>last_Java_sp = 0x3000, last_Java_fp = 0x2FF0, last_Java_pc = (0x4000 :: 32 word)\<rparr>
   \<and> last_Java_sp \<lparr>last_Java_sp = 0x1000, last_Java_fp = 0x2FF0, last_Java_pc = (0x4000 :: 32 word)\<rparr> \<noteq> 0
   \<and> reads [Load_step Last_Java_sp, Load_step Last_Java_fp, Store_step, Store_step,
             Load_step Last_Java_pc]
        Map.empty (copy_stores \<lparr>last_Java_sp = 0x1000, last_Java_fp = 0xFF0, last_Java_pc = (0x2000 :: 32 word)\<rparr> \<lparr>last_Java_sp = 0x1000, last_Java_fp = 0x2FF0, last_Java_pc = (0x4000 :: 32 word)\<rparr>) \<lparr>last_Java_sp = 0x1000, last_Java_fp = 0xFF0, last_Java_pc = (0x2000 :: 32 word)\<rparr> = [\<lparr>last_Java_sp = 0x1000, last_Java_fp = 0xFF0, last_Java_pc = (0x4000 :: 32 word)\<rparr>]
   \<and> \<lparr>last_Java_sp = 0x1000, last_Java_fp = 0xFF0, last_Java_pc = (0x4000 :: 32 word)\<rparr> \<noteq> \<lparr>last_Java_sp = 0x1000, last_Java_fp = 0xFF0, last_Java_pc = (0x2000 :: 32 word)\<rparr>
   \<and> \<lparr>last_Java_sp = 0x1000, last_Java_fp = 0xFF0, last_Java_pc = (0x4000 :: 32 word)\<rparr> \<noteq> copy \<lparr>last_Java_sp = 0x1000, last_Java_fp = 0xFF0, last_Java_pc = (0x2000 :: 32 word)\<rparr> \<lparr>last_Java_sp = 0x1000, last_Java_fp = 0x2FF0, last_Java_pc = (0x4000 :: 32 word)\<rparr>
   \<and> last_Java_fp \<lparr>last_Java_sp = 0x1000, last_Java_fp = 0xFF0, last_Java_pc = (0x4000 :: 32 word)\<rparr> \<noteq> last_Java_fp \<lparr>last_Java_sp = 0x1000, last_Java_fp = 0x2FF0, last_Java_pc = (0x4000 :: 32 word)\<rparr>"
  by (simp add: clear_stores_def clear_def copy_stores_def copy_def sample_of_def)

theorem samples_consistent_witness:
  "\<lparr>last_Java_sp = 0x1000, last_Java_fp = 0x2FF0, last_Java_pc = (0x4000 :: 32 word)\<rparr> \<in> set (reads [Load_step Last_Java_sp, Store_step, Store_step, Store_step, Store_step,
                      Load_step Last_Java_fp, Load_step Last_Java_pc]
                 Map.empty (copy_stores \<lparr>last_Java_sp = 0x1000, last_Java_fp = 0xFF0, last_Java_pc = (0x2000 :: 32 word)\<rparr> \<lparr>last_Java_sp = 0x3000, last_Java_fp = 0x2FF0, last_Java_pc = (0x4000 :: 32 word)\<rparr>) \<lparr>last_Java_sp = 0x1000, last_Java_fp = 0xFF0, last_Java_pc = (0x2000 :: 32 word)\<rparr>)
   \<and> last_Java_sp \<lparr>last_Java_sp = 0x1000, last_Java_fp = 0x2FF0, last_Java_pc = (0x4000 :: 32 word)\<rparr> = last_Java_sp \<lparr>last_Java_sp = 0x1000, last_Java_fp = 0xFF0, last_Java_pc = (0x2000 :: 32 word)\<rparr>
   \<and> last_Java_fp \<lparr>last_Java_sp = 0x1000, last_Java_fp = 0x2FF0, last_Java_pc = (0x4000 :: 32 word)\<rparr> = last_Java_fp \<lparr>last_Java_sp = 0x3000, last_Java_fp = 0x2FF0, last_Java_pc = (0x4000 :: 32 word)\<rparr>
   \<and> last_Java_pc \<lparr>last_Java_sp = 0x1000, last_Java_fp = 0x2FF0, last_Java_pc = (0x4000 :: 32 word)\<rparr> = last_Java_pc \<lparr>last_Java_sp = 0x3000, last_Java_fp = 0x2FF0, last_Java_pc = (0x4000 :: 32 word)\<rparr>
   \<and> \<lparr>last_Java_sp = 0, last_Java_fp = 0xFF0, last_Java_pc = (0x2000 :: 32 word)\<rparr> \<in> set (reads [Store_step, Load_step Last_Java_pc, Load_step Last_Java_fp,
                       Load_step Last_Java_sp] Map.empty clear_stores \<lparr>last_Java_sp = 0x1000, last_Java_fp = 0xFF0, last_Java_pc = (0x2000 :: 32 word)\<rparr>)
   \<and> \<lparr>last_Java_sp = 0, last_Java_fp = 0xFF0, last_Java_pc = (0x2000 :: 32 word)\<rparr> \<in> set (samples [Writer_step, Reader_sample] clear_stores \<lparr>last_Java_sp = 0x1000, last_Java_fp = 0xFF0, last_Java_pc = (0x2000 :: 32 word)\<rparr>)
   \<and> last_Java_sp \<lparr>last_Java_sp = 0, last_Java_fp = 0xFF0, last_Java_pc = (0x2000 :: 32 word)\<rparr> = 0
   \<and> last_Java_sp \<lparr>last_Java_sp = 0x1000, last_Java_fp = 0xFF0, last_Java_pc = (0x2000 :: 32 word)\<rparr> \<noteq> last_Java_sp \<lparr>last_Java_sp = 0x3000, last_Java_fp = 0x2FF0, last_Java_pc = (0x4000 :: 32 word)\<rparr>
   \<and> \<lparr>last_Java_sp = 0x3000, last_Java_fp = 0x2FF0, last_Java_pc = (0x4000 :: 32 word)\<rparr> \<in> set (samples [Writer_step, Writer_step, Writer_step, Writer_step, Reader_sample]
                    (copy_stores \<lparr>last_Java_sp = 0x1000, last_Java_fp = 0xFF0, last_Java_pc = (0x2000 :: 32 word)\<rparr> \<lparr>last_Java_sp = 0x3000, last_Java_fp = 0x2FF0, last_Java_pc = (0x4000 :: 32 word)\<rparr>) \<lparr>last_Java_sp = 0x1000, last_Java_fp = 0xFF0, last_Java_pc = (0x2000 :: 32 word)\<rparr>)
   \<and> \<lparr>last_Java_sp = 0x3000, last_Java_fp = 0x2FF0, last_Java_pc = (0x4000 :: 32 word)\<rparr> = copy \<lparr>last_Java_sp = 0x1000, last_Java_fp = 0xFF0, last_Java_pc = (0x2000 :: 32 word)\<rparr> \<lparr>last_Java_sp = 0x3000, last_Java_fp = 0x2FF0, last_Java_pc = (0x4000 :: 32 word)\<rparr>
   \<and> last_Java_sp \<lparr>last_Java_sp = 0x1000, last_Java_fp = 0xFF0, last_Java_pc = (0x2000 :: 32 word)\<rparr> = last_Java_sp \<lparr>last_Java_sp = 0x1000, last_Java_fp = 0x2FF0, last_Java_pc = (0x4000 :: 32 word)\<rparr>
   \<and> \<lparr>last_Java_sp = 0x1000, last_Java_fp = 0xFF0, last_Java_pc = (0x4000 :: 32 word)\<rparr> \<in> set (reads [Load_step Last_Java_sp, Load_step Last_Java_fp, Store_step, Store_step,
                      Load_step Last_Java_pc] Map.empty (copy_stores \<lparr>last_Java_sp = 0x1000, last_Java_fp = 0xFF0, last_Java_pc = (0x2000 :: 32 word)\<rparr> \<lparr>last_Java_sp = 0x1000, last_Java_fp = 0x2FF0, last_Java_pc = (0x4000 :: 32 word)\<rparr>) \<lparr>last_Java_sp = 0x1000, last_Java_fp = 0xFF0, last_Java_pc = (0x2000 :: 32 word)\<rparr>)
   \<and> last_Java_sp \<lparr>last_Java_sp = 0x1000, last_Java_fp = 0xFF0, last_Java_pc = (0x4000 :: 32 word)\<rparr> = last_Java_sp \<lparr>last_Java_sp = 0x1000, last_Java_fp = 0xFF0, last_Java_pc = (0x2000 :: 32 word)\<rparr>
   \<and> \<lparr>last_Java_sp = 0x1000, last_Java_fp = 0x2FF0, last_Java_pc = (0x2000 :: 32 word)\<rparr> \<in> set (samples [Writer_step, Reader_sample] (copy_stores \<lparr>last_Java_sp = 0x1000, last_Java_fp = 0xFF0, last_Java_pc = (0x2000 :: 32 word)\<rparr> \<lparr>last_Java_sp = 0x1000, last_Java_fp = 0x2FF0, last_Java_pc = (0x4000 :: 32 word)\<rparr>) \<lparr>last_Java_sp = 0x1000, last_Java_fp = 0xFF0, last_Java_pc = (0x2000 :: 32 word)\<rparr>)
   \<and> last_Java_sp \<lparr>last_Java_sp = 0x1000, last_Java_fp = 0x2FF0, last_Java_pc = (0x2000 :: 32 word)\<rparr> = last_Java_sp \<lparr>last_Java_sp = 0x1000, last_Java_fp = 0xFF0, last_Java_pc = (0x2000 :: 32 word)\<rparr>
   \<and> last_Java_fp \<lparr>last_Java_sp = 0x1000, last_Java_fp = 0x2FF0, last_Java_pc = (0x2000 :: 32 word)\<rparr> = last_Java_fp \<lparr>last_Java_sp = 0x1000, last_Java_fp = 0x2FF0, last_Java_pc = (0x4000 :: 32 word)\<rparr>
   \<and> last_Java_pc \<lparr>last_Java_sp = 0x1000, last_Java_fp = 0x2FF0, last_Java_pc = (0x2000 :: 32 word)\<rparr> = last_Java_pc \<lparr>last_Java_sp = 0x1000, last_Java_fp = 0xFF0, last_Java_pc = (0x2000 :: 32 word)\<rparr>"
proof -
  let ?A = "\<lparr>last_Java_sp = 0x1000, last_Java_fp = 0xFF0, last_Java_pc = (0x2000 :: 32 word)\<rparr>"
  let ?B = "\<lparr>last_Java_sp = 0x3000, last_Java_fp = 0x2FF0, last_Java_pc = (0x4000 :: 32 word)\<rparr>"
  let ?C = "\<lparr>last_Java_sp = 0x1000, last_Java_fp = 0x2FF0, last_Java_pc = (0x4000 :: 32 word)\<rparr>"
  let ?N = "\<lparr>last_Java_sp = 0x1000, last_Java_fp = 0xFF0, last_Java_pc = (0x4000 :: 32 word)\<rparr>"
  let ?l1 = "[Load_step Last_Java_sp, Store_step, Store_step, Store_step, Store_step,
              Load_step Last_Java_fp, Load_step Last_Java_pc]"
  let ?l2 = "[Load_step Last_Java_sp, Load_step Last_Java_fp, Store_step, Store_step,
              Load_step Last_Java_pc]"
  have m1: "?C \<in> set (reads ?l1 Map.empty (copy_stores ?A ?B) ?A)"
    by (simp add: copy_stores_def sample_of_def)
  have m2: "?N \<in> set (reads ?l2 Map.empty (copy_stores ?A ?C) ?A)"
    by (simp add: copy_stores_def sample_of_def)
  have eq: "last_Java_sp ?A = last_Java_sp ?C"
    by simp
  have "\<forall>s \<in> set (reads ?l1 Map.empty (copy_stores ?A ?B) ?A).
       (last_Java_sp s = last_Java_sp ?A \<or> last_Java_sp s = 0
          \<or> last_Java_sp s = last_Java_sp ?B)
     \<and> (last_Java_fp s = last_Java_fp ?A \<or> last_Java_fp s = last_Java_fp ?B)
     \<and> (last_Java_pc s = last_Java_pc ?A \<or> last_Java_pc s = last_Java_pc ?B)"
    using samples_consistent [of ?l1 ?A ?B "[]"] by (elim conjE)
  from bspec [OF this m1]
  have f1: "last_Java_pc ?C = last_Java_pc ?A \<or> last_Java_pc ?C = last_Java_pc ?B"
    by (elim conjE)
  have "last_Java_sp ?A = last_Java_sp ?C \<longrightarrow>
        (\<forall>s \<in> set (reads ?l2 Map.empty (copy_stores ?A ?C) ?A).
            last_Java_sp s = last_Java_sp ?A)"
    using samples_consistent [of ?l2 ?A ?C "[]"] by (elim conjE)
  from bspec [OF mp [OF this eq] m2]
  have f2: "last_Java_sp ?N = last_Java_sp ?A" .
  show ?thesis
    using f1 f2
    by (simp add: clear_stores_def copy_stores_def copy_def sample_of_def)
qed

text \<open>
  C4. \<^verbatim>\<open>clear\<close> stores \<^verbatim>\<open>NULL\<close> to the stack pointer before it clears the frame
  pointer and the program counter: the stack pointer is absent in every state after the
  first. After \<^verbatim>\<open>clear\<close> has returned all three fields are \<^verbatim>\<open>NULL\<close>, and so is
  every sample a reader takes from then on.
\<close>

theorem clear_sp_first:
  fixes this :: "'a::len JavaFrameAnchor"
  shows "store_index Last_Java_sp (clear_stores :: 'a word store list) = Some 0
   \<and> store_index Last_Java_fp (clear_stores :: 'a word store list) = Some 1
   \<and> store_index Last_Java_pc (clear_stores :: 'a word store list) = Some 2
   \<and> (\<forall>s \<in> set (states clear_stores this). s = this \<or> last_Java_sp s = 0)
   \<and> clear this = \<lparr>last_Java_sp = 0, last_Java_fp = 0, last_Java_pc = 0\<rparr>
   \<and> (\<forall>s \<in> set (samples (Writer_step # Writer_step # Writer_step # sch) clear_stores this).
         s = \<lparr>last_Java_sp = 0, last_Java_fp = 0, last_Java_pc = 0\<rparr>)"
proof (intro conjI)
  show "\<forall>s \<in> set (states clear_stores this). s = this \<or> last_Java_sp s = 0"
    by (simp add: states_clear)
  show "clear this = \<lparr>last_Java_sp = 0, last_Java_fp = 0, last_Java_pc = 0\<rparr>"
    by (rule clear_result)
  show "\<forall>s \<in> set (samples (Writer_step # Writer_step # Writer_step # sch) clear_stores this).
         s = \<lparr>last_Java_sp = 0, last_Java_fp = 0, last_Java_pc = 0\<rparr>"
  proof -
    have "samples (Writer_step # Writer_step # Writer_step # sch) clear_stores this
            = samples sch [] (clear this)"
      by (simp add: clear_def clear_stores_def)
    then show ?thesis
      using samples_done [of sch "clear this"] by (auto simp: clear_result)
  qed
qed (simp_all add: clear_stores_def)

theorem clear_sp_first_witness:
  "store_index Last_Java_sp (clear_stores :: 32 word store list) = Some 0
   \<and> \<lparr>last_Java_sp = 0, last_Java_fp = 0xFF0, last_Java_pc = (0x2000 :: 32 word)\<rparr> \<in> set (states clear_stores \<lparr>last_Java_sp = 0x1000, last_Java_fp = 0xFF0, last_Java_pc = (0x2000 :: 32 word)\<rparr>)
   \<and> last_Java_sp \<lparr>last_Java_sp = 0, last_Java_fp = 0xFF0, last_Java_pc = (0x2000 :: 32 word)\<rparr> = 0
   \<and> clear \<lparr>last_Java_sp = 0x1000, last_Java_fp = 0xFF0, last_Java_pc = (0x2000 :: 32 word)\<rparr> = \<lparr>last_Java_sp = 0, last_Java_fp = 0, last_Java_pc = (0 :: 32 word)\<rparr>
   \<and> samples [Writer_step, Writer_step, Writer_step, Reader_sample] clear_stores \<lparr>last_Java_sp = 0x1000, last_Java_fp = 0xFF0, last_Java_pc = (0x2000 :: 32 word)\<rparr> = [\<lparr>last_Java_sp = 0, last_Java_fp = 0, last_Java_pc = (0 :: 32 word)\<rparr>]"
  using clear_sp_first [of "\<lparr>last_Java_sp = 0x1000, last_Java_fp = 0xFF0, last_Java_pc = (0x2000 :: 32 word)\<rparr>" "[Reader_sample]"]
  by (simp add: clear_stores_def)

text \<open>
  C7. \<^verbatim>\<open>walkable\<close> is true of every anchor state, and of every state an anchor goes
  through under any sequence of stores; \<^verbatim>\<open>make_walkable\<close> changes neither the thread
  nor the anchor.
\<close>

theorem always_walkable:
  "walkable this \<and> make_walkable thread this = (thread, this)
   \<and> (\<forall>s \<in> set (states ws this). walkable s)"
  by (simp add: walkable_def make_walkable_def)

theorem always_walkable_witness:
  "walkable \<lparr>last_Java_sp = 0x1000, last_Java_fp = 0xFF0, last_Java_pc = (0x2000 :: 32 word)\<rparr>
   \<and> make_walkable (7::nat) \<lparr>last_Java_sp = 0x1000, last_Java_fp = 0xFF0, last_Java_pc = (0x2000 :: 32 word)\<rparr> = (7, \<lparr>last_Java_sp = 0x1000, last_Java_fp = 0xFF0, last_Java_pc = (0x2000 :: 32 word)\<rparr>)
   \<and> \<lparr>last_Java_sp = 0, last_Java_fp = 0xFF0, last_Java_pc = (0x2000 :: 32 word)\<rparr> \<in> set (states clear_stores \<lparr>last_Java_sp = 0x1000, last_Java_fp = 0xFF0, last_Java_pc = (0x2000 :: 32 word)\<rparr>)
   \<and> walkable \<lparr>last_Java_sp = 0, last_Java_fp = 0xFF0, last_Java_pc = (0x2000 :: 32 word)\<rparr>"
  using always_walkable [of "\<lparr>last_Java_sp = 0x1000, last_Java_fp = 0xFF0, last_Java_pc = (0x2000 :: 32 word)\<rparr>" "7::nat" clear_stores]
  by (simp add: clear_stores_def)

text \<open>
  C8. Calling \<^verbatim>\<open>clear\<close> twice in succession leaves the anchor in the same state
  as calling it once.
\<close>

theorem clear_idempotent: "clear (clear this) = clear this"
  by (simp add: clear_result)

section \<open>Properties of the class object\<close>

text \<open>
  C5. \<^verbatim>\<open>klass_part\<close> returns the address of the receiver plus the fixed offset, for
  every class object: the Klass part lies in the class object itself, at that offset.
  The result is the address, not a pointer loaded from it; class objects at different
  addresses have different Klass parts.
\<close>

theorem klass_part_is_address:
  "klass_part sz this = this + scast (klass_part_offset_in_bytes sz)
   \<and> klass_part sz this - this = klass_part sz this' - this'
   \<and> (klass_part sz this = klass_part sz this' \<longleftrightarrow> this = this')"
  by (simp add: klass_part_def)

text \<open>
  A class object at \<open>0x1000\<close> on a 32-bit build, with 8 bytes of header, and a memory
  that holds the pointer \<open>0x5000\<close> at \<open>0x1008\<close>: loading the field at the offset gives
  \<open>0x5000\<close>, \<^verbatim>\<open>klass_part\<close> gives \<open>0x1008\<close>.
\<close>

theorem descriptor_is_not_loaded:
  "klass_part 8 0x1000 = (0x1008 :: 32 word)
   \<and> descriptor_spec [0x1008 \<mapsto> 0x5000] 8 (0x1000 :: 32 word) = Some 0x5000
   \<and> Some (klass_part 8 (0x1000 :: 32 word)) \<noteq> descriptor_spec [0x1008 \<mapsto> 0x5000] 8 0x1000"
  by (simp add: klass_part_def descriptor_spec_def klass_part_offset_in_bytes_def)

text \<open>
  C6. \<^verbatim>\<open>klass_part_offset_in_bytes\<close> and \<^verbatim>\<open>header_size\<close> are static: each is
  one value, fixed by the two compile-time constants alone, with no receiver and no
  state to depend on. The offset that \<^verbatim>\<open>klass_part\<close> applies is that one value at
  every class object.
\<close>

theorem layout_constants_fixed:
  "klass_part_offset_in_bytes sz = ucast sz
   \<and> header_size sz hws = ucast (sz div scast hws)
   \<and> klass_part sz this - this = scast (klass_part_offset_in_bytes sz)
   \<and> klass_part sz this' - this' = scast (klass_part_offset_in_bytes sz)"
  by (simp add: klass_part_def klass_part_offset_in_bytes_def header_size_def)

subsection \<open>The offset and the header size\<close>






section \<open>Properties of the write to the serialization page\<close>

text \<open>Whatever the filter: a store that completes is not a matter for the filter.\<close>

lemma serialize_memory_no_fault: "serialize_memory filter_expr (None # attempts) = Some Stored"
  by simp

lemma serialize_memory_by_filter:
  "serialize_memory filter_expr (Some e # attempts) = Some (Swallowed e)
     \<longleftrightarrow> filter_expr e = EXCEPTION_EXECUTE_HANDLER
         \<or> filter_expr e = EXCEPTION_CONTINUE_EXECUTION
           \<and> serialize_memory filter_expr attempts = Some (Swallowed e)"
  by (cases "filter_expr e") simp_all

text \<open>
  C3. With the filter of the specification, \<^verbatim>\<open>serialize_memory\<close> swallows a fault
  of its store exactly when the fault is at the address of the safepoint page, and then
  returns through the empty handler block; a fault at any other address leaves the
  function unchanged, for the enclosing handlers. A store that completes is stored.
\<close>

theorem serialize_memory_faults:
  "serialize_memory (serialize_fault_filter page) (Some e # attempts) =
     Some (if fault_address e = page then Swallowed e else Propagated e)
   \<and> serialize_memory (serialize_fault_filter page) (None # attempts) = Some Stored"
  by (simp add: serialize_fault_filter_def)

theorem serialize_memory_faults_witness:
  "serialize_memory (serialize_fault_filter (0x7000 :: 32 word))
       [Some \<lparr>ExceptionCode = 0xC0000005, fault_address = 0x7000\<rparr>]
     = Some (Swallowed \<lparr>ExceptionCode = 0xC0000005, fault_address = 0x7000\<rparr>)
   \<and> serialize_memory (serialize_fault_filter (0x7000 :: 32 word))
       [Some \<lparr>ExceptionCode = 0xC0000005, fault_address = 0x7004\<rparr>]
     = Some (Propagated \<lparr>ExceptionCode = 0xC0000005, fault_address = 0x7004\<rparr>)"
  using serialize_memory_faults [of "0x7000 :: 32 word" "\<lparr>ExceptionCode = 0xC0000005, fault_address = 0x7000\<rparr>" "[]"]
    serialize_memory_faults [of "0x7000 :: 32 word" "\<lparr>ExceptionCode = 0xC0000005, fault_address = 0x7004\<rparr>" "[]"]
  by simp

end
